theory Spec2Isabelle
  imports Complex_Main "HOL-Library.AList" "HOL-Library.Sublist" "HOL-Library.Product_Lexorder"
begin

section \<open>Conventions of the embedding\<close>

text \<open>
  The planning and forecasting engine of OpenFPA is Python. Its amounts are Python floats
  (and SQL numerics); the embedding reads them as exact real numbers, so rounding error of
  binary floating point is not modelled. The special value NaN, which pandas and numpy
  return instead of raising, is modelled where the code can produce it: a possibly-NaN
  float is a \<open>real option\<close> with \<open>None\<close> for NaN.
  A Python dict is an association list (insertion order is the iteration order), an
  exception is the \<open>Inl\<close> of a sum type.
\<close>

datatype py_error = ValueError | AttributeError | KeyError | TypeError | IndexError

type_synonym 'v pydict = "(string \<times> 'v) list"

text \<open>Python's \<open>round(x, n)\<close> on a float: to the nearest multiple of \<open>10^-n\<close>, ties to even.\<close>

definition round_half_even :: "real \<Rightarrow> int" where
  "round_half_even x =
     (let f = \<lfloor>x\<rfloor>; d = x - of_int f
      in if d < 1/2 then f else if 1/2 < d then f + 1 else if even f then f else f + 1)"

definition py_round :: "real \<Rightarrow> nat \<Rightarrow> real" where
  "py_round x n = of_int (round_half_even (x * 10 ^ n)) / 10 ^ n"

section \<open>Variance engine\<close>

subsection \<open>\<open>models.py\<close>: the account type\<close>

text \<open>
  \<open>class AccountType(enum.Enum)\<close> with the members below; the column
  \<open>GLAccount.account_type\<close> is \<open>SQLEnum(AccountType)\<close>, so a selected row carries a member
  of the enumeration. A plain \<open>enum.Enum\<close> member is equal only to itself: compared with a
  \<open>str\<close> it is unequal. \<open>pyval\<close> holds the two kinds of Python value that meet in the
  comparison \<open>row.account_type == "expense"\<close>.
\<close>

datatype AccountType = ASSET | LIABILITY | EQUITY | REVENUE | EXPENSE

datatype pyval = PyEnum AccountType | PyStr string

fun py_eq :: "pyval \<Rightarrow> pyval \<Rightarrow> bool" where
  "py_eq (PyEnum a) (PyEnum b) = (a = b)"
| "py_eq (PyStr s) (PyStr t) = (s = t)"
| "py_eq _ _ = False"

subsection \<open>\<open>simple_analytics_routes.get_variance_analysis\<close>\<close>

text \<open>A row of the budget-versus-actual query (\<open>budget\<close> and \<open>actual\<close> are coalesced to 0 by
  the query, so \<open>float(row.budget or 0)\<close> is the number itself).\<close>

record variance_row =
  row_account_code :: string
  row_account_name :: string
  row_account_type :: pyval
  row_budget :: real
  row_actual :: real

record variance_entry =
  account_code :: string
  account_name :: string
  account_type :: pyval
  budget :: real
  actual :: real
  variance :: real
  variance_percentage :: real
  status :: string

text \<open>The body of the loop \<open>for row in variance_data\<close>, and the loop.\<close>

fun get_variance_analysis :: "variance_row list \<Rightarrow> variance_entry list" where
  "get_variance_analysis [] = []"
| "get_variance_analysis (row # rows) =
     (let budget' = row_budget row;
          actual' = row_actual row;
          variance' = actual' - budget';
          variance_pct = (if budget' \<noteq> 0 then variance' / budget' * 100 else 0);
          status' =
            (if py_eq (row_account_type row) (PyStr ''expense'')
             then (if variance' < 0 then ''favorable''
                   else if variance' > 0 then ''unfavorable'' else ''neutral'')
             else (if variance' > 0 then ''favorable''
                   else if variance' < 0 then ''unfavorable'' else ''neutral''))
      in (if budget' \<noteq> 0 \<or> actual' \<noteq> 0
          then [\<lparr>account_code = row_account_code row,
                 account_name = row_account_name row,
                 account_type = row_account_type row,
                 budget = py_round budget' 2,
                 actual = py_round actual' 2,
                 variance = py_round variance' 2,
                 variance_percentage = py_round variance_pct 2,
                 status = status'\<rparr>]
          else []) @ get_variance_analysis rows)"

subsection \<open>\<open>variance_analysis.calculate_variance_for_period\<close>\<close>




subsection \<open>The variance rule as the specification words it\<close>

datatype account_nature = Revenue_like | Expense_like

datatype direction = Favorable | Unfavorable | Neutral

definition spec_direction :: "account_nature \<Rightarrow> real \<Rightarrow> real \<Rightarrow> direction" where
  "spec_direction nature act planned =
     (if act = planned then Neutral
      else case nature of
        Expense_like \<Rightarrow> (if act < planned then Favorable else Unfavorable)
      | Revenue_like \<Rightarrow> (if act > planned then Favorable else Unfavorable))"


definition status_of_direction :: "direction \<Rightarrow> string" where
  "status_of_direction d =
     (case d of Favorable \<Rightarrow> ''favorable'' | Unfavorable \<Rightarrow> ''unfavorable'' | Neutral \<Rightarrow> ''neutral'')"

section \<open>Driver model: \<open>driver_based_planning.DriverBasedPlanningService\<close>\<close>

text \<open>
  Method names lose their leading underscore (\<open>_calculate_step_function\<close> is
  \<open>calculate_step_function\<close>): an Isabelle name starts with a letter.
\<close>

subsection \<open>Python built-ins the service calls\<close>

text \<open>
  \<open>float(s)\<close>, \<open>str(x)\<close> and \<open>eval(s, {"__builtins__": {}}, {min, max, abs, round})\<close> are the
  interpreter's; the service is modelled for any such functions. \<open>None\<close> is the raised
  exception (\<open>ValueError\<close> for \<open>float\<close>, any exception for \<open>eval\<close>).
\<close>

record py_builtins =
  py_float :: "string \<Rightarrow> real option"
  py_str :: "real \<Rightarrow> string"
  py_eval :: "string \<Rightarrow> real option"

text \<open>\<open>s.split(sep)\<close> for a separator of one character.\<close>

fun split_on :: "char \<Rightarrow> string \<Rightarrow> string list" where
  "split_on sep [] = [[]]"
| "split_on sep (c # cs) =
     (if c = sep then [] # split_on sep cs
      else (case split_on sep cs of
              [] \<Rightarrow> [[c]]
            | p # ps \<Rightarrow> (c # p) # ps))"

text \<open>\<open>s.replace(old, new)\<close>: every occurrence, left to right, without overlap.\<close>

function str_replace :: "string \<Rightarrow> string \<Rightarrow> string \<Rightarrow> string" where
  "str_replace old new s =
     (if old = [] then new @ concat (map (\<lambda>c. c # new) s)
      else if s = [] then []
      else if prefix old s then new @ str_replace old new (drop (length old) s)
      else hd s # str_replace old new (tl s))"
  by pat_completeness auto
termination
  by (relation "measure (\<lambda>(old, new, s). length s)") auto

declare str_replace.simps [simp del]

text \<open>\<open>d.get(k, default)\<close>.\<close>

definition dict_get :: "'v pydict \<Rightarrow> string \<Rightarrow> 'v \<Rightarrow> 'v" where
  "dict_get d k dflt = (case map_of d k of None \<Rightarrow> dflt | Some v \<Rightarrow> v)"

text \<open>
  A decimal literal \<open>[+-]digits[.digits]\<close> as \<open>float\<close> reads it; used where a concrete
  run of the service is evaluated (Python's \<open>float\<close> accepts more: exponents, \<open>inf\<close>,
  surrounding blanks).
\<close>

definition digit_val :: "char \<Rightarrow> nat option" where
  "digit_val c =
     (let n = (of_char c :: nat) in if 48 \<le> n \<and> n \<le> 57 then Some (n - 48) else None)"

fun digits_val :: "nat \<Rightarrow> string \<Rightarrow> nat option" where
  "digits_val acc [] = Some acc"
| "digits_val acc (c # cs) =
     (case digit_val c of None \<Rightarrow> None | Some d \<Rightarrow> digits_val (10 * acc + d) cs)"

definition unsigned_decimal :: "string \<Rightarrow> real option" where
  "unsigned_decimal s =
     (case split_on CHR ''.'' s of
        [ip] \<Rightarrow> (if ip = [] then None else map_option real (digits_val 0 ip))
      | [ip, fp] \<Rightarrow>
          (if ip = [] \<and> fp = [] then None
           else (case (digits_val 0 ip, digits_val 0 fp) of
                   (Some i, Some f) \<Rightarrow> Some (real i + real f / 10 ^ length fp)
                 | _ \<Rightarrow> None))
      | _ \<Rightarrow> None)"

definition decimal_float :: "string \<Rightarrow> real option" where
  "decimal_float s =
     (case s of
        [] \<Rightarrow> None
      | c # cs \<Rightarrow>
          if c = CHR ''-'' then map_option uminus (unsigned_decimal cs)
          else if c = CHR ''+'' then unsigned_decimal cs
          else unsigned_decimal s)"

subsection \<open>\<open>_calculate_step_function\<close>\<close>

text \<open>
  The loop \<open>for step in steps\<close>. \<open>range_part, value_part = step.split(':')\<close> raises
  \<open>ValueError\<close> unless there are exactly two parts, and so does the unpacking of
  \<open>range_part.split('-')\<close>. The chained comparison
  \<open>float(min_val) <= driver_value <= float(max_val)\<close> reads \<open>max_val\<close> only when its first
  half holds.
\<close>

fun step_function_loop :: "py_builtins \<Rightarrow> real \<Rightarrow> string list \<Rightarrow> py_error + real" where
  "step_function_loop bi driver_value [] = Inr 0"
| "step_function_loop bi driver_value (step # steps) =
     (case split_on CHR '':'' step of
        [range_part, value_part] \<Rightarrow>
          (if CHR ''-'' \<in> set range_part
           then (case split_on CHR ''-'' range_part of
                   [min_val, max_val] \<Rightarrow>
                     (if max_val = ''+''
                      then (case py_float bi min_val of
                              None \<Rightarrow> Inl ValueError
                            | Some lo \<Rightarrow>
                                if driver_value \<ge> lo
                                then (case py_float bi value_part of
                                        None \<Rightarrow> Inl ValueError
                                      | Some v \<Rightarrow> Inr v)
                                else step_function_loop bi driver_value steps)
                      else (case py_float bi min_val of
                              None \<Rightarrow> Inl ValueError
                            | Some lo \<Rightarrow>
                                if lo \<le> driver_value
                                then (case py_float bi max_val of
                                        None \<Rightarrow> Inl ValueError
                                      | Some hi \<Rightarrow>
                                          if driver_value \<le> hi
                                          then (case py_float bi value_part of
                                                  None \<Rightarrow> Inl ValueError
                                                | Some v \<Rightarrow> Inr v)
                                          else step_function_loop bi driver_value steps)
                                else step_function_loop bi driver_value steps))
                 | _ \<Rightarrow> Inl ValueError)
           else step_function_loop bi driver_value steps)
      | _ \<Rightarrow> Inl ValueError)"

text \<open>The column \<open>formula\<close> is nullable; \<open>None.split\<close> raises \<open>AttributeError\<close>.\<close>

definition calculate_step_function :: "py_builtins \<Rightarrow> real \<Rightarrow> string option \<Rightarrow> py_error + real" where
  "calculate_step_function bi driver_value formula =
     (case formula of
        None \<Rightarrow> Inl AttributeError
      | Some f \<Rightarrow> step_function_loop bi driver_value (split_on CHR '';'' f))"

subsection \<open>\<open>_evaluate_formula\<close>\<close>

text \<open>\<open>driver_assumptions\<close>: driver id to (period id to value).\<close>

type_synonym assumptions = "real pydict pydict"

text \<open>The loop \<open>for driver_id, values in all_drivers.items()\<close>.\<close>

fun replace_driver_references :: "py_builtins \<Rightarrow> string \<Rightarrow> assumptions \<Rightarrow> string \<Rightarrow> string" where
  "replace_driver_references bi period_id [] eval_formula = eval_formula"
| "replace_driver_references bi period_id ((driver_id, values) # rest) eval_formula =
     replace_driver_references bi period_id rest
       (case map_of values period_id of
          None \<Rightarrow> eval_formula
        | Some v \<Rightarrow> str_replace (CHR ''$'' # driver_id) (py_str bi v) eval_formula)"

text \<open>
  The two \<open>replace\<close> calls stand before the \<open>try\<close>, so a NULL formula raises
  \<open>AttributeError\<close>; every exception of \<open>eval\<close> is caught by the bare \<open>except\<close> and
  becomes the value 0.
\<close>

definition evaluate_formula ::
  "py_builtins \<Rightarrow> string option \<Rightarrow> real \<Rightarrow> assumptions \<Rightarrow> string \<Rightarrow> py_error + real" where
  "evaluate_formula bi formula driver_value all_drivers period_id =
     (case formula of
        None \<Rightarrow> Inl AttributeError
      | Some f \<Rightarrow>
          (let eval_formula = str_replace ''$DRIVER'' (py_str bi driver_value) f;
               eval_formula = replace_driver_references bi period_id all_drivers eval_formula
           in case py_eval bi eval_formula of
                Some v \<Rightarrow> Inr v
              | None \<Rightarrow> Inr 0))"

subsection \<open>\<open>create_driver_relationship\<close>\<close>

text \<open>A row of the table \<open>driver_relationships\<close>.\<close>

record driver_relationship =
  rel_id :: string
  business_driver_id :: string
  gl_account_id :: string
  cost_center_id :: "string option"
  relationship_type :: string
  coefficient :: real
  formula :: "string option"
  is_active :: bool


subsection \<open>\<open>_calculate_period_forecast\<close>\<close>

text \<open>
  The loop \<open>for rel in relationships\<close> over the rows of the relationship query, with the
  dict \<open>account_values\<close> it fills.
\<close>

fun period_forecast_loop ::
  "py_builtins \<Rightarrow> assumptions \<Rightarrow> string \<Rightarrow> driver_relationship list \<Rightarrow> real pydict
     \<Rightarrow> py_error + real pydict" where
  "period_forecast_loop bi driver_assumptions period_id [] account_values = Inr account_values"
| "period_forecast_loop bi driver_assumptions period_id (rel # rels) account_values =
     (let driver_id = business_driver_id rel;
          account_id = gl_account_id rel;
          driver_value = dict_get (dict_get driver_assumptions driver_id []) period_id 0
      in if driver_value \<noteq> 0
         then (case (if relationship_type rel = ''linear''
                     then Inr (driver_value * coefficient rel)
                     else if relationship_type rel = ''percentage''
                     then (let base_value = dict_get account_values account_id 0
                           in Inr (base_value * (coefficient rel / 100)))
                     else if relationship_type rel = ''step_function''
                     then calculate_step_function bi driver_value (formula rel)
                     else if relationship_type rel = ''custom_formula''
                     then evaluate_formula bi (formula rel) driver_value driver_assumptions period_id
                     else Inr driver_value) of
                 Inl e \<Rightarrow> Inl e
               | Inr account_value \<Rightarrow>
                   period_forecast_loop bi driver_assumptions period_id rels
                     (AList.update account_id
                        (dict_get account_values account_id 0 + account_value) account_values))
         else period_forecast_loop bi driver_assumptions period_id rels account_values)"

record period_result =
  period_id :: string
  account_values :: "real pydict"
  total_revenue :: real
  total_expenses :: real
  ebitda :: real
  ebitda_margin :: real

text \<open>
  \<open>_is_revenue_account\<close> and \<open>_is_expense_account\<close> read the \<open>account_type\<close> of an account
  from the table \<open>gl_accounts\<close>, here a map from account id to that column.
  \<open>_create_budget_line\<close> is called once per computed account; the class does not define
  it, and the model leaves the call out.
\<close>

definition is_revenue_account :: "(string \<Rightarrow> string option) \<Rightarrow> string \<Rightarrow> bool" where
  "is_revenue_account gl_accounts account_id = (gl_accounts account_id = Some ''revenue'')"

definition is_expense_account :: "(string \<Rightarrow> string option) \<Rightarrow> string \<Rightarrow> bool" where
  "is_expense_account gl_accounts account_id = (gl_accounts account_id = Some ''expense'')"

definition calculate_period_forecast ::
  "py_builtins \<Rightarrow> (string \<Rightarrow> string option) \<Rightarrow> driver_relationship list \<Rightarrow> string \<Rightarrow> assumptions
     \<Rightarrow> py_error + period_result" where
  "calculate_period_forecast bi gl_accounts relationships pid driver_assumptions =
     (case period_forecast_loop bi driver_assumptions pid relationships [] of
        Inl e \<Rightarrow> Inl e
      | Inr avs \<Rightarrow>
          (let revenue = sum_list (map snd (filter (\<lambda>(k, v). is_revenue_account gl_accounts k) avs));
               expenses = sum_list (map snd (filter (\<lambda>(k, v). is_expense_account gl_accounts k) avs));
               ebitda' = revenue - expenses
           in Inr \<lparr>period_id = pid,
                   account_values = avs,
                   total_revenue = revenue,
                   total_expenses = expenses,
                   ebitda = ebitda',
                   ebitda_margin = (if revenue \<noteq> 0 then ebitda' / revenue * 100 else 0)\<rparr>))"

subsection \<open>\<open>calculate_driver_based_forecast\<close>\<close>

record forecast_summary =
  sum_total_revenue :: real
  sum_total_expenses :: real
  sum_ebitda :: real
  sum_ebitda_margin :: real

record driver_forecast =
  periods :: "period_result list"
  summary :: forecast_summary

text \<open>The loop \<open>for period_id in fiscal_periods\<close>.\<close>

fun period_results ::
  "py_builtins \<Rightarrow> (string \<Rightarrow> string option) \<Rightarrow> driver_relationship list \<Rightarrow> string list \<Rightarrow> assumptions
     \<Rightarrow> py_error + period_result list" where
  "period_results bi gl_accounts relationships [] driver_assumptions = Inr []"
| "period_results bi gl_accounts relationships (pid # pids) driver_assumptions =
     (case calculate_period_forecast bi gl_accounts relationships pid driver_assumptions of
        Inl e \<Rightarrow> Inl e
      | Inr r \<Rightarrow>
          (case period_results bi gl_accounts relationships pids driver_assumptions of
             Inl e \<Rightarrow> Inl e
           | Inr rs \<Rightarrow> Inr (r # rs)))"

definition calculate_driver_based_forecast ::
  "py_builtins \<Rightarrow> (string \<Rightarrow> string option) \<Rightarrow> driver_relationship list \<Rightarrow> string list \<Rightarrow> assumptions
     \<Rightarrow> py_error + driver_forecast" where
  "calculate_driver_based_forecast bi gl_accounts relationships fiscal_periods driver_assumptions =
     (case period_results bi gl_accounts relationships fiscal_periods driver_assumptions of
        Inl e \<Rightarrow> Inl e
      | Inr results \<Rightarrow>
          (let total_revenue' = sum_list (map total_revenue results);
               total_expenses' = sum_list (map total_expenses results);
               total_ebitda = sum_list (map ebitda results)
           in Inr \<lparr>periods = results,
                   summary = \<lparr>sum_total_revenue = total_revenue',
                              sum_total_expenses = total_expenses',
                              sum_ebitda = total_ebitda,
                              sum_ebitda_margin =
                                (if total_revenue' \<noteq> 0 then total_ebitda / total_revenue' * 100
                                 else 0)\<rparr>\<rparr>))"

subsection \<open>\<open>perform_sensitivity_analysis\<close>\<close>









definition list_min :: "'a::linorder list \<Rightarrow> 'a" where
  "list_min xs = fold min (tl xs) (hd xs)"




text \<open>
  The sensitivity run as the specification words it: the forecast for grid point \<open>v\<close> is
  computed from the baseline assumption set, with the examined driver's values replaced
  by \<open>base * (1 + v / 100)\<close> and every other driver at its baseline.
\<close>

definition spec_adjusted :: "assumptions \<Rightarrow> string \<Rightarrow> real \<Rightarrow> assumptions" where
  "spec_adjusted baseline driver_id v =
     map (\<lambda>(d, vals). (d, if d = driver_id
                            then map (\<lambda>(period, base). (period, base * (1 + v / 100))) vals
                            else vals)) baseline"

definition spec_sensitivity_point ::
  "py_builtins \<Rightarrow> (string \<Rightarrow> string option) \<Rightarrow> driver_relationship list \<Rightarrow> assumptions \<Rightarrow> string
     \<Rightarrow> real \<Rightarrow> py_error + driver_forecast" where
  "spec_sensitivity_point bi gl_accounts relationships baseline driver_id v =
     calculate_driver_based_forecast bi gl_accounts relationships
       (map fst (dict_get baseline driver_id [])) (spec_adjusted baseline driver_id v)"

section \<open>Forecast strategies: \<open>forecasting.ForecastingService\<close>\<close>

subsection \<open>numpy, pandas and scikit-learn functions the services call\<close>

text \<open>\<open>np.mean\<close>, and \<open>np.std\<close>: the population standard deviation (\<open>ddof = 0\<close>).\<close>

definition np_mean :: "real list \<Rightarrow> real" where
  "np_mean xs = sum_list xs / real (length xs)"

definition np_std :: "real list \<Rightarrow> real" where
  "np_std xs = sqrt (sum_list (map (\<lambda>x. (x - np_mean xs)\<^sup>2) xs) / real (length xs))"

text \<open>
  The pandas \<open>std\<close> of a column or of a group: the sample standard deviation (\<open>ddof = 1\<close>),
  which is NaN for fewer than two values.
\<close>

definition pd_std :: "real list \<Rightarrow> real option" where
  "pd_std xs =
     (if length xs < 2 then None
      else Some (sqrt (sum_list (map (\<lambda>x. (x - np_mean xs)\<^sup>2) xs) / real (length xs - 1))))"

text \<open>
  The least-squares line through the points \<open>(xs, ys)\<close>, as (slope, intercept): what
  \<open>LinearRegression().fit\<close> finds for one feature and what \<open>np.polyfit(x, y, 1)\<close> returns.
\<close>

definition least_squares_line :: "real list \<Rightarrow> real list \<Rightarrow> real \<times> real" where
  "least_squares_line xs ys =
     (let mx = np_mean xs;
          my = np_mean ys;
          sxy = sum_list (map (\<lambda>(x, y). (x - mx) * (y - my)) (zip xs ys));
          sxx = sum_list (map (\<lambda>x. (x - mx)\<^sup>2) xs);
          slope = sxy / sxx
      in (slope, my - slope * mx))"

text \<open>\<open>sklearn.metrics.r2_score\<close> and \<open>mean_absolute_percentage_error\<close>.\<close>

definition r2_score :: "real list \<Rightarrow> real list \<Rightarrow> real" where
  "r2_score y_true y_pred =
     (let numerator = sum_list (map (\<lambda>(t, p). (t - p)\<^sup>2) (zip y_true y_pred));
          denominator = sum_list (map (\<lambda>t. (t - np_mean y_true)\<^sup>2) y_true)
      in if numerator = 0 then 1
         else if denominator = 0 then 0
         else 1 - numerator / denominator)"

definition mean_absolute_percentage_error :: "real list \<Rightarrow> real list \<Rightarrow> real" where
  "mean_absolute_percentage_error y_true y_pred =
     np_mean (map (\<lambda>(t, p). \<bar>p - t\<bar> / max \<bar>t\<bar> (1 / 2 ^ 52)) (zip y_true y_pred))"


text \<open>A comparison with NaN is false.\<close>

definition float_le :: "real option \<Rightarrow> real option \<Rightarrow> bool" where
  "float_le a b = (case (a, b) of (Some x, Some y) \<Rightarrow> x \<le> y | _ \<Rightarrow> False)"

subsection \<open>The history and the results\<close>

text \<open>
  A row of \<open>get_historical_data\<close> (its \<open>start_date\<close> and \<open>end_date\<close> are read by no
  strategy). A method that returns \<open>{'error': message}\<close> gives \<open>Error message\<close>.
\<close>

record history_row =
  fiscal_year :: int
  period_number :: int
  actual_amount :: real

datatype 'a response = Error string | Result 'a

text \<open>The interval bounds of a forecast are floats that can be NaN.\<close>

record forecast_point =
  forecasted_amount :: real
  confidence_interval_low :: "real option"
  confidence_interval_high :: "real option"
  confidence_score :: real

record indexed_point = forecast_point +
  period_index :: nat


subsection \<open>\<open>create_linear_trend_forecast\<close>\<close>

record linear_trend_result =
  linear_r2_score :: real
  linear_mape :: real
  forecasts :: "indexed_point list"
  historical_periods_used :: nat

definition create_linear_trend_forecast :: "history_row list \<Rightarrow> nat \<Rightarrow> linear_trend_result response" where
  "create_linear_trend_forecast historical_data forecast_periods =
     (if length historical_data < 6 then Error ''Insufficient historical data''
      else
        (let df = zip [0..<length historical_data] (map actual_amount historical_data);
             mean_amount = np_mean (map snd df);
             outliers_removed =
               (case pd_std (map snd df) of
                  None \<Rightarrow> []
                | Some std_amount \<Rightarrow> filter (\<lambda>(i, a). \<bar>a - mean_amount\<bar> \<le> 2 * std_amount) df);
             df_clean = (if length outliers_removed < 3 then df else outliers_removed);
             X = map (\<lambda>(i, a). real i) df_clean;
             y = map snd df_clean;
             model = least_squares_line X y;
             y_pred = map (\<lambda>x. fst model * x + snd model) X;
             r2 = r2_score y y_pred;
             mape = (if list_min y \<noteq> 0 then mean_absolute_percentage_error y y_pred else 0)
         in Result
              \<lparr>linear_r2_score = r2,
               linear_mape = mape,
               forecasts =
                 map (\<lambda>i. let future_index = length df + i;
                               predicted_amount = fst model * real future_index + snd model;
                               residuals = map (\<lambda>(t, p). t - p) (zip y y_pred);
                               std_residual = np_std residuals;
                               confidence_interval = 1.96 * std_residual
                           in \<lparr>forecasted_amount = predicted_amount,
                               confidence_interval_low = Some (predicted_amount - confidence_interval),
                               confidence_interval_high = Some (predicted_amount + confidence_interval),
                               confidence_score = r2,
                               period_index = future_index\<rparr>)
                     [0..<forecast_periods],
               historical_periods_used = length df_clean\<rparr>))"

subsection \<open>\<open>create_seasonal_forecast\<close>\<close>





subsection \<open>\<open>create_moving_average_forecast\<close>\<close>



section \<open>Forecast strategies: \<open>revenue_planning.RevenuePlanningService\<close>\<close>

text \<open>A row of the monthly revenue history (the key \<open>type\<close> is the constant \<open>'actual'\<close>).\<close>

record revenue_row =
  year :: int
  month :: int
  period :: string
  revenue :: real






record trend_point =
  point_month :: nat
  point_period :: string
  forecast :: real
  point_method :: string

record confidence_interval =
  interval_period :: string
  interval_forecast :: real
  lower :: real
  upper :: "real option"
  interval_confidence_level :: real


subsection \<open>\<open>_calculate_forecast_confidence\<close>\<close>

text \<open>
  \<open>returns = np.diff(revenues) / revenues[:-1]\<close> divides by every revenue but the last;
  numpy does not raise on a zero divisor, the quotient is infinite or NaN and the
  standard deviation of \<open>returns\<close> is NaN. \<open>max(0, NaN)\<close> is 0.
\<close>

definition calculate_forecast_confidence ::
  "trend_point list \<Rightarrow> revenue_row list \<Rightarrow> real \<Rightarrow> confidence_interval list" where
  "calculate_forecast_confidence points historical_data confidence_level =
     (let revenues = map revenue historical_data;
          volatility =
            (if length revenues > 1
             then (if 0 \<in> set (butlast revenues) then None
                   else Some (np_std (map (\<lambda>(a, b). (b - a) / a) (zip revenues (tl revenues)))))
             else Some 0.1);
          z_score = (if confidence_level = 0.90 then 1.645
                     else if confidence_level = 0.95 then 1.96
                     else if confidence_level = 0.99 then 2.576
                     else 1.96)
      in map (\<lambda>(i, point).
                let uncertainty = map_option (\<lambda>v. v * sqrt (real (i + 1)) * z_score) volatility;
                    forecast_value = forecast point
                in \<lparr>interval_period = point_period point,
                    interval_forecast = forecast_value,
                    lower = (case uncertainty of
                               None \<Rightarrow> 0
                             | Some u \<Rightarrow> max 0 (forecast_value * (1 - u))),
                    upper = map_option (\<lambda>u. forecast_value * (1 + u)) uncertainty,
                    interval_confidence_level = confidence_level * 100\<rparr>)
             (enumerate 0 points))"

subsection \<open>\<open>_trend_analysis_forecast\<close>\<close>


subsection \<open>\<open>generate_revenue_forecast\<close>\<close>


section \<open>Accuracy evaluator\<close>

subsection \<open>\<open>planning_routes._calculate_accuracy_metrics\<close>\<close>

record accuracy_metrics =
  mape :: real
  rmse :: real
  r_squared :: real

text \<open>\<open>np.diff\<close>.\<close>

definition np_diff :: "real list \<Rightarrow> real list" where
  "np_diff xs = map (\<lambda>(a, b). b - a) (zip xs (tl xs))"

definition calculate_accuracy_metrics :: "revenue_row list \<Rightarrow> accuracy_metrics" where
  "calculate_accuracy_metrics historical_data =
     (let revenues = filter (\<lambda>r. r > 0) (map revenue historical_data)
      in if length revenues < 6 then \<lparr>mape = 0, rmse = 0, r_squared = 0\<rparr>
         else
           (let split_idx = nat \<lfloor>real (length revenues) * 0.7\<rfloor>;
                train_data = take split_idx revenues;
                test_data = drop split_idx revenues
            in if length train_data < 2 \<or> length test_data < 2
               then \<lparr>mape = 0, rmse = 0, r_squared = 0\<rparr>
               else
                 (let avg_growth = np_mean (np_diff train_data);
                      base = last train_data;
                      predictions = map (\<lambda>i. base + avg_growth * real (i + 1)) [0..<length test_data];
                      mape_sum = sum_list (map (\<lambda>(a, pred). if a > 0 then \<bar>(a - pred) / a\<bar> else 0)
                                               (zip test_data predictions));
                      mape_pct = (if test_data \<noteq> [] then (mape_sum / real (length test_data)) * 100 else 0);
                      root_mse = sqrt (np_mean (map (\<lambda>(a, pred). (a - pred)\<^sup>2) (zip test_data predictions)));
                      ss_res = sum_list (map (\<lambda>(a, pred). (a - pred)\<^sup>2) (zip test_data predictions));
                      ss_tot = sum_list (map (\<lambda>a. (a - np_mean test_data)\<^sup>2) test_data);
                      r2 = (if ss_tot > 0 then 1 - ss_res / ss_tot else 0)
                  in \<lparr>mape = py_round mape_pct 2,
                      rmse = py_round root_mse 2,
                      r_squared = py_round r2 4\<rparr>)))"

subsection \<open>\<open>forecasting.ForecastingService.get_forecast_accuracy\<close>\<close>

text \<open>A row of the query that joins a stored forecast with the actual of its period.
  \<open>np.mean\<close> of an empty list is NaN.\<close>

record accuracy_row =
  row_forecasted_amount :: real
  row_actual_amount :: real

record forecast_accuracy =
  accuracy_mape :: "real option"
  accuracy_mae :: real
  accuracy_rmse :: real
  periods_analyzed :: nat

definition get_forecast_accuracy :: "accuracy_row list \<Rightarrow> forecast_accuracy response" where
  "get_forecast_accuracy data =
     (if length data < 2 then Error ''Insufficient data for accuracy calculation''
      else
        (let forecasted = map row_forecasted_amount data;
             actuals = map row_actual_amount data;
             terms = map (\<lambda>(a, f). \<bar>(a - f) / a\<bar>) (filter (\<lambda>(a, f). a \<noteq> 0) (zip actuals forecasted))
         in Result
              \<lparr>accuracy_mape = (if terms = [] then None else Some (np_mean terms * 100)),
               accuracy_mae = np_mean (map (\<lambda>(a, f). \<bar>a - f\<bar>) (zip actuals forecasted)),
               accuracy_rmse = sqrt (np_mean (map (\<lambda>(a, f). (a - f)\<^sup>2) (zip actuals forecasted))),
               periods_analyzed = length data\<rparr>))"

subsection \<open>The metrics as the specification words them\<close>

text \<open>MAPE averaged over the points whose actual is not 0; RMSE; R squared as
  \<open>1 - SS_res / SS_tot\<close>, and 0 when \<open>SS_tot = 0\<close>.\<close>

definition spec_mape :: "real list \<Rightarrow> real list \<Rightarrow> real" where
  "spec_mape actuals predictions =
     (let nonzero = filter (\<lambda>(a, p). a \<noteq> 0) (zip actuals predictions)
      in sum_list (map (\<lambda>(a, p). \<bar>(a - p) / a\<bar>) nonzero) / real (length nonzero) * 100)"

definition spec_rmse :: "real list \<Rightarrow> real list \<Rightarrow> real" where
  "spec_rmse actuals predictions =
     sqrt (sum_list (map (\<lambda>(a, p). (a - p)\<^sup>2) (zip actuals predictions)) / real (length actuals))"

definition spec_r_squared :: "real list \<Rightarrow> real list \<Rightarrow> real" where
  "spec_r_squared actuals predictions =
     (let ss_res = sum_list (map (\<lambda>(a, p). (a - p)\<^sup>2) (zip actuals predictions));
          ss_tot = sum_list (map (\<lambda>a. (a - np_mean actuals)\<^sup>2) actuals)
      in if ss_tot = 0 then 0 else 1 - ss_res / ss_tot)"

text \<open>The 70/30 split and the trend fitted on the training slice: the last training value
  plus the mean step of the training slice for every period ahead.\<close>

definition spec_train :: "real list \<Rightarrow> real list" where
  "spec_train series = take (nat \<lfloor>7 * real (length series) / 10\<rfloor>) series"

definition spec_validation :: "real list \<Rightarrow> real list" where
  "spec_validation series = drop (nat \<lfloor>7 * real (length series) / 10\<rfloor>) series"

definition spec_trend_predictions :: "real list \<Rightarrow> nat \<Rightarrow> real list" where
  "spec_trend_predictions train n =
     map (\<lambda>k. last train + np_mean (np_diff train) * real k) [1..<n + 1]"

section \<open>Properties: variance engine\<close>


lemma py_round_zero [simp]: "py_round 0 n = 0"
  by (simp add: py_round_def round_half_even_def Let_def)


text \<open>
  The direction rule of \<open>get_variance_analysis\<close>, for one row: the expense rule applies
  exactly when \<open>row.account_type\<close> is the string \<open>"expense"\<close>; every other value, a member
  of \<open>AccountType\<close> included, takes the revenue rule.
\<close>

lemma get_variance_analysis_status:
  "map status (get_variance_analysis [row]) =
     (if row_budget row = 0 \<and> row_actual row = 0 then []
      else [status_of_direction
              (spec_direction
                 (if row_account_type row = PyStr ''expense'' then Expense_like else Revenue_like)
                 (row_actual row) (row_budget row))])"
  by (cases "row_account_type row")
     (auto simp add: Let_def spec_direction_def status_of_direction_def)

text \<open>
  C2. The direction of a variance: for an Expense-like account Favorable iff actual < planned,
  for a Revenue-like account Favorable iff actual > planned, Neutral when equal.
  The rows of \<open>get_variance_analysis\<close> come from the ORM query, whose \<open>account_type\<close> column
  yields members of \<open>AccountType\<close>. For the expense account below (actual 80, budget 100)
  the comparison with the string \<open>"expense"\<close> is false, the revenue branch runs and the
  status is unfavorable, where the rule of the specification gives favorable.
\<close>

theorem get_variance_analysis_expense_member:
  "map status (get_variance_analysis
       [\<lparr>row_account_code = ''6000'', row_account_name = ''Salaries and Wages'',
         row_account_type = PyEnum EXPENSE, row_budget = 100, row_actual = 80\<rparr>])
     = [''unfavorable'']
   \<and> status_of_direction (spec_direction Expense_like 80 100) = ''favorable''"
  by (simp add: Let_def spec_direction_def status_of_direction_def)




section \<open>Properties: driver model\<close>

subsection \<open>Step function\<close>

text \<open>
  With the open-ended range written \<open>200-+\<close> the lookup gives the values of the
  specification's example: 150 gives 2000, 250 gives 3000, -5 gives 0.
\<close>

lemma calculate_step_function_dash_plus:
  "\<forall>bi. calculate_step_function (bi\<lparr>py_float := decimal_float\<rparr>) 250
           (Some ''0-100:1000;100-200:2000;200-+:3000'') = Inr 3000
      \<and> calculate_step_function (bi\<lparr>py_float := decimal_float\<rparr>) 150
           (Some ''0-100:1000;100-200:2000;200-+:3000'') = Inr 2000
      \<and> calculate_step_function (bi\<lparr>py_float := decimal_float\<rparr>) (- 5)
           (Some ''0-100:1000;100-200:2000;200-+:3000'') = Inr 0"
  by (simp add: calculate_step_function_def decimal_float_def unsigned_decimal_def digit_val_def)

text \<open>
  C9. Step-function evaluation is a piecewise lookup; a value at or above the low bound of
  the open-ended final range yields that range's value: with breakpoints
  (0,100,1000), (100,200,2000), (200,+inf,3000) the driver value 250 yields 3000.
  The method's comment gives the format of a formula as \<open>0-100:1000;101-200:2000;201+:3000\<close>:
  the open-ended range is \<open>N+\<close>. Such a range part holds no \<open>-\<close>, the test
  \<open>'-' in range_part\<close> skips it, and the lookup falls through to 0.
\<close>

theorem calculate_step_function_open_range:
  "\<forall>bi. calculate_step_function (bi\<lparr>py_float := decimal_float\<rparr>) 250
           (Some ''0-100:1000;100-200:2000;200+:3000'') = Inr 0"
  by (simp add: calculate_step_function_def decimal_float_def unsigned_decimal_def digit_val_def)

subsection \<open>Relationships with a zero driver value\<close>

lemma period_forecast_loop_filter:
  "period_forecast_loop bi da p rels av =
   period_forecast_loop bi da p
     (filter (\<lambda>rel. dict_get (dict_get da (business_driver_id rel) []) p 0 \<noteq> 0) rels) av"
  by (induction rels arbitrary: av) (auto simp add: Let_def split: sum.splits)

text \<open>
  C10. In the per-period forecast a relationship whose driver value for the period is
  missing or 0 is skipped and contributes nothing, whatever its type: the forecast of the
  period (account values, totals, and any exception) is the forecast computed from the
  relationships whose driver value is not 0.
\<close>

theorem calculate_period_forecast_skips_zero:
  "calculate_period_forecast bi gl rels p da =
   calculate_period_forecast bi gl
     (filter (\<lambda>rel. dict_get (dict_get da (business_driver_id rel) []) p 0 \<noteq> 0) rels) p da"
  by (simp add: calculate_period_forecast_def period_forecast_loop_filter [of bi da p rels])

text \<open>
  An instance: a step function that maps the value 0 to 1000 contributes nothing when the
  driver value is 0, and the account does not appear in the result.
\<close>

lemma calculate_period_forecast_zero_step:
  "\<forall>bi gl. map_sum id account_values
       (calculate_period_forecast (bi\<lparr>py_float := decimal_float\<rparr>) gl
          [\<lparr>rel_id = ''r1'', business_driver_id = ''headcount'', gl_account_id = ''6000'',
            cost_center_id = None, relationship_type = ''step_function'', coefficient = 1,
            formula = Some ''0-100:1000'', is_active = True\<rparr>]
          ''2025-01'' [(''headcount'', [(''2025-01'', 0)])]) = Inr []"
  by (simp add: calculate_period_forecast_def dict_get_def Let_def)

subsection \<open>Formulas\<close>



subsection \<open>Sensitivity analysis\<close>


text \<open>
  The grid of the specification's example, computed as the specification words it: a
  linear relationship with coefficient 2 on a revenue account, base driver value 100.
\<close>

lemma spec_sensitivity_point_grid:
  "\<forall>bi. map (\<lambda>v. case spec_sensitivity_point bi (map_of [(''4000'', ''revenue'')])
                      [\<lparr>rel_id = ''r1'', business_driver_id = ''headcount'',
                        gl_account_id = ''4000'', cost_center_id = None,
                        relationship_type = ''linear'', coefficient = 2,
                        formula = None, is_active = True\<rparr>]
                      [(''headcount'', [(''2025-01'', 100)])] ''headcount'' v of
                 Inl e \<Rightarrow> None
               | Inr f \<Rightarrow> Some (sum_total_revenue (summary f))) [- 10, - 5, 0, 5, 10]
        = [Some 180, Some 190, Some 200, Some 210, Some 220]"
  by (simp add: spec_sensitivity_point_def spec_adjusted_def Let_def
        calculate_driver_based_forecast_def calculate_period_forecast_def dict_get_def
        is_revenue_account_def is_expense_account_def)


section \<open>Properties: forecast strategies\<close>

subsection \<open>Statistics\<close>

lemma np_std_nonneg: "0 \<le> np_std xs"
  unfolding np_std_def
  by (intro real_sqrt_ge_zero divide_nonneg_nonneg sum_list_nonneg) auto


subsection \<open>Insufficient history\<close>




subsection \<open>Interval around the point estimate\<close>

text \<open>
  The linear trend of \<open>ForecastingService\<close> keeps the point estimate inside its interval:
  the half-width is 1.96 times a standard deviation.
\<close>

lemma create_linear_trend_forecast_interval:
  "create_linear_trend_forecast h n = Result r \<Longrightarrow> p \<in> set (forecasts r) \<Longrightarrow>
     float_le (confidence_interval_low p) (Some (forecasted_amount p))
   \<and> float_le (Some (forecasted_amount p)) (confidence_interval_high p)"
  using np_std_nonneg
  by (auto simp add: create_linear_trend_forecast_def Let_def float_le_def split: if_splits)

text \<open>
  So does \<open>_calculate_forecast_confidence\<close> for a point estimate that is not negative, as
  long as no revenue but the last is 0.
\<close>

lemma interval_lower_bound:
  "0 \<le> f \<Longrightarrow> 0 \<le> v \<Longrightarrow> 0 \<le> z \<Longrightarrow> 0 \<le> s \<Longrightarrow> f * (1 - v * s * z) \<le> (f::real)"
proof -
  assume a: "0 \<le> f" "0 \<le> v" "0 \<le> z" "0 \<le> s"
  then have "0 \<le> f * (v * s * z)" by simp
  then show ?thesis by (simp add: algebra_simps)
qed

lemma interval_upper_bound:
  "0 \<le> f \<Longrightarrow> 0 \<le> v \<Longrightarrow> 0 \<le> z \<Longrightarrow> 0 \<le> s \<Longrightarrow> (f::real) \<le> f * (1 + v * s * z)"
proof -
  assume a: "0 \<le> f" "0 \<le> v" "0 \<le> z" "0 \<le> s"
  then have "0 \<le> f * (v * s * z)" by simp
  then show ?thesis by (simp add: algebra_simps)
qed

lemma calculate_forecast_confidence_interval:
  assumes "0 \<notin> set (butlast (map revenue h))"
    and "c \<in> set (calculate_forecast_confidence points h level)"
    and "0 \<le> interval_forecast c"
  shows "lower c \<le> interval_forecast c \<and> float_le (Some (interval_forecast c)) (upper c)"
proof -
  define z :: real where "z = (if level = 0.90 then 1.645
                     else if level = 0.95 then 1.96
                     else if level = 0.99 then 2.576
                     else 1.96)"
  have z: "0 \<le> z" by (simp add: z_def)
  define vol where "vol = (if length (map revenue h) > 1
             then (if 0 \<in> set (butlast (map revenue h)) then None
                   else Some (np_std (map (\<lambda>(a, b). (b - a) / a)
                                 (zip (map revenue h) (tl (map revenue h))))))
             else Some 0.1)"
  have "\<exists>v. 0 \<le> v \<and> vol = Some v"
  proof (cases "length (map revenue h) > 1")
    case True
    then show ?thesis using assms(1) np_std_nonneg by (simp add: vol_def)
  next
    case False
    then have "vol = Some 0.1" by (simp add: vol_def)
    moreover have "(0::real) \<le> 0.1" by simp
    ultimately show ?thesis by blast
  qed
  then obtain v where v: "0 \<le> v" "vol = Some v" by blast
  from assms(2,3) show ?thesis
    unfolding calculate_forecast_confidence_def Let_def vol_def [symmetric] z_def [symmetric] v(2)
    using v(1) z
    by (auto simp add: float_le_def intro!: interval_lower_bound interval_upper_bound)
qed


subsection \<open>Floor at zero\<close>









end
